theory Spec2Isabelle
  imports Main "HOL-Library.Sublist" "HOL-Library.Word"
begin

section \<open>fastapi-cacher: the configuration model and the cache contract\<close>

text \<open>
  The development follows \<^verbatim>\<open>fastapi_cacher/config.py\<close> (the pydantic model
  \<^verbatim>\<open>CacheConfig\<close> with its two validators) and \<^verbatim>\<open>fastapi_cacher/base.py\<close>
  (the abstract class \<^verbatim>\<open>BaseCache\<close>).
\<close>

subsection \<open>Strings and Python's truth value test\<close>

text \<open>
  \<^verbatim>\<open>not s\<close> on a \<^verbatim>\<open>str\<close> holds for the empty string only; on a value that may be
  \<^verbatim>\<open>None\<close> it holds for \<^verbatim>\<open>None\<close> and for the empty string.
\<close>

definition truthy_str :: "string \<Rightarrow> bool" where
  "truthy_str s = (s \<noteq> [])"

fun truthy_opt :: "string option \<Rightarrow> bool" where
  "truthy_opt None = False"
| "truthy_opt (Some s) = truthy_str s"

text \<open>\<^verbatim>\<open>sep.join(xs)\<close>.\<close>

fun join_str :: "string \<Rightarrow> string list \<Rightarrow> string" where
  "join_str sep [] = []"
| "join_str sep [x] = x"
| "join_str sep (x # y # ys) = x @ sep @ join_str sep (y # ys)"

text \<open>\<^verbatim>\<open>repr\<close> of a string without quotes or escapes in it: the string in single quotes.\<close>

definition repr_str :: "string \<Rightarrow> string" where
  "repr_str s = [CHR 0x27] @ s @ [CHR 0x27]"

text \<open>
  What an f-string prints for \<^verbatim>\<open>Literal[a, b, ...]\<close>:
  \<^verbatim>\<open>typing.Literal['a', 'b', ...]\<close>.
\<close>

definition repr_Literal :: "string list \<Rightarrow> string" where
  "repr_Literal args = ''typing.Literal['' @ join_str '', '' (map repr_str args) @ '']''"

subsection \<open>The configuration model\<close>

text \<open>\<^verbatim>\<open>get_args(SUPPORTED_CACHE_TYPES)\<close>, line 6.\<close>

definition SUPPORTED_CACHE_TYPES :: "string list" where
  "SUPPORTED_CACHE_TYPES = [''SimpleCache'', ''RedisCache'', ''MongoCache'', ''MemCache'']"

text \<open>
  Modelled from the spec: the module \<^verbatim>\<open>fastapi_cacher.coder\<close> (the classes
  \<^verbatim>\<open>Coder\<close> and \<^verbatim>\<open>JsonCoder\<close>) is imported by \<^verbatim>\<open>config.py\<close> and is not among
  the sources. The spec calls the coder a pluggable serializer whose default is a JSON
  encode/decode pair; here a coder is known by its identity only.
\<close>

datatype Coder = JsonCoder | OtherCoder string

text \<open>
  The class-level constants, lines 15 to 19. They are annotated \<^verbatim>\<open>Final\<close> and have
  a value, so they belong to the class and not to the fields of an instance.
\<close>

definition ONE_HOUR :: int where
  "ONE_HOUR = 3600"

definition ONE_DAY :: int where
  "ONE_DAY = ONE_HOUR * 24"

definition ONE_WEEK :: int where
  "ONE_WEEK = ONE_DAY * 7"

definition ONE_MONTH :: int where
  "ONE_MONTH = ONE_DAY * 30"

definition ONE_YEAR :: int where
  "ONE_YEAR = ONE_DAY * 365"

text \<open>
  The fields of an instance of \<^verbatim>\<open>CacheConfig\<close>, lines 10 to 36. The fields
  \<^verbatim>\<open>redis_host\<close> and \<^verbatim>\<open>redis_password\<close> default to \<^verbatim>\<open>None\<close>.
\<close>

record CacheConfig =
  cache_type :: string
  default_timeout :: int
  app_space :: string
  coder :: Coder
  sliding_expiration :: bool
  simple_cache_threshold :: int
  redis_url :: string
  redis_host :: "string option"
  redis_port :: int
  redis_password :: "string option"
  redis_db :: int
  mongo_url :: string
  mongo_database :: string
  mongo_collection :: string
  mongo_direct_connection :: bool
  memcache_host :: string
  memcache_port :: int
  memcache_threshold :: int

text \<open>
  The keyword arguments of the constructor \<^verbatim>\<open>CacheConfig(...)\<close>: each field is
  either given (\<open>Some\<close>) or left out (\<open>None\<close>). Every given value has the type of its
  field; \<^verbatim>\<open>cache_type\<close> is any string.
\<close>

record Parameters =
  arg_cache_type :: "string option"
  arg_default_timeout :: "int option"
  arg_app_space :: "string option"
  arg_coder :: "Coder option"
  arg_sliding_expiration :: "bool option"
  arg_simple_cache_threshold :: "int option"
  arg_redis_url :: "string option"
  arg_redis_host :: "string option"
  arg_redis_port :: "int option"
  arg_redis_password :: "string option"
  arg_redis_db :: "int option"
  arg_mongo_url :: "string option"
  arg_mongo_database :: "string option"
  arg_mongo_collection :: "string option"
  arg_mongo_direct_connection :: "bool option"
  arg_memcache_host :: "string option"
  arg_memcache_port :: "int option"
  arg_memcache_threshold :: "int option"

text \<open>The call \<^verbatim>\<open>CacheConfig()\<close>: no keyword argument at all.\<close>

definition no_parameters :: Parameters where
  "no_parameters = \<lparr>
     arg_cache_type = None, arg_default_timeout = None, arg_app_space = None,
     arg_coder = None, arg_sliding_expiration = None, arg_simple_cache_threshold = None,
     arg_redis_url = None, arg_redis_host = None, arg_redis_port = None,
     arg_redis_password = None, arg_redis_db = None,
     arg_mongo_url = None, arg_mongo_database = None, arg_mongo_collection = None,
     arg_mongo_direct_connection = None,
     arg_memcache_host = None, arg_memcache_port = None, arg_memcache_threshold = None \<rparr>"

text \<open>A field that was left out takes the default written in the class body.\<close>

definition or_default :: "'a option \<Rightarrow> 'a \<Rightarrow> 'a" where
  "or_default v d = (case v of None \<Rightarrow> d | Some x \<Rightarrow> x)"

definition with_defaults :: "Parameters \<Rightarrow> CacheConfig" where
  "with_defaults p = \<lparr>
     cache_type = or_default (arg_cache_type p) ''SimpleCache'',
     default_timeout = or_default (arg_default_timeout p) 300,
     app_space = or_default (arg_app_space p) ''fastapi-cacher'',
     coder = or_default (arg_coder p) JsonCoder,
     sliding_expiration = or_default (arg_sliding_expiration p) False,
     simple_cache_threshold = or_default (arg_simple_cache_threshold p) 100,
     redis_url = or_default (arg_redis_url p) [],
     redis_host = arg_redis_host p,
     redis_port = or_default (arg_redis_port p) 6379,
     redis_password = arg_redis_password p,
     redis_db = or_default (arg_redis_db p) 0,
     mongo_url = or_default (arg_mongo_url p) [],
     mongo_database = or_default (arg_mongo_database p) ''fastapi-cacher'',
     mongo_collection = or_default (arg_mongo_collection p) ''cache'',
     mongo_direct_connection = or_default (arg_mongo_direct_connection p) False,
     memcache_host = or_default (arg_memcache_host p) [],
     memcache_port = or_default (arg_memcache_port p) 11211,
     memcache_threshold = or_default (arg_memcache_threshold p) 100 \<rparr>"

text \<open>The validators raise \<^verbatim>\<open>ValueError(message)\<close>.\<close>

datatype error = ValueError string

text \<open>\<^verbatim>\<open>validate_cache_type\<close>, lines 38 to 43.\<close>

definition validate_cache_type :: "string \<Rightarrow> error + string" where
  "validate_cache_type v =
     (if v \<notin> set SUPPORTED_CACHE_TYPES
      then Inl (ValueError (''cache_type must be one of '' @ repr_Literal SUPPORTED_CACHE_TYPES))
      else Inr v)"

text \<open>\<^verbatim>\<open>validate_connection_attributes\<close>, lines 45 to 62.\<close>

definition validate_connection_attributes :: "CacheConfig \<Rightarrow> error + CacheConfig" where
  "validate_connection_attributes values =
     (if cache_type values = ''RedisCache'' then
        (if \<not> truthy_str (redis_url values)
            \<and> \<not> list_all truthy_opt [redis_host values, redis_password values]
         then Inl (ValueError
           (''With RedisCache, either redis_url must be provided or (redis_host, '' @
            ''redis_password) must be provided.''))
         else Inr values)
      else if cache_type values = ''MongoCache'' then
        (if \<not> truthy_str (mongo_url values)
         then Inl (ValueError ''With MongoCache, either mongo_url must be provided.'')
         else Inr values)
      else if cache_type values = ''MemCache'' then
        (if \<not> truthy_str (memcache_host values)
         then Inl (ValueError ''With Memcache, memcache_host must be provided.'')
         else Inr values)
      else Inr values)"

text \<open>
  Construction fails with the validation error of the model, which the spec names
  \<^verbatim>\<open>InvalidConfiguration\<close>; a \<^verbatim>\<open>ValueError\<close> of a validator reaches the caller
  as such an error, with its message.
\<close>

datatype construct_error = InvalidConfiguration string

fun error_message :: "error \<Rightarrow> string" where
  "error_message (ValueError m) = m"

text \<open>
  The annotation of line 10 gives \<^verbatim>\<open>cache_type\<close> the type
  \<^verbatim>\<open>Literal["SimpleCache", "RedisCache", "MongoCache", "MemCache"]\<close>. The base class
  checks a given value against the annotation before it runs a field validator, since
  \<^verbatim>\<open>field_validator\<close> is by default of mode \<^verbatim>\<open>after\<close>. A value that is none of
  the four is refused there, with the message of the library:
  \<^verbatim>\<open>Input should be 'SimpleCache', 'RedisCache', 'MongoCache' or 'MemCache'\<close>.
\<close>

fun literal_expected :: "string list \<Rightarrow> string" where
  "literal_expected [] = []"
| "literal_expected [x] = repr_str x"
| "literal_expected [x, y] = repr_str x @ '' or '' @ repr_str y"
| "literal_expected (x # y # z # zs) = repr_str x @ '', '' @ literal_expected (y # z # zs)"

definition literal_check :: "string \<Rightarrow> construct_error + string" where
  "literal_check v =
     (if v \<in> set SUPPORTED_CACHE_TYPES then Inr v
      else Inl (InvalidConfiguration
        (''Input should be '' @ literal_expected SUPPORTED_CACHE_TYPES)))"

text \<open>
  A given \<^verbatim>\<open>cache_type\<close>: the check of the annotation, then the field validator of
  lines 38 to 43 on the value that passed.
\<close>

definition check_cache_type :: "string \<Rightarrow> construct_error + string" where
  "check_cache_type v =
     (case literal_check v of
        Inl e \<Rightarrow> Inl e
      | Inr v' \<Rightarrow>
          (case validate_cache_type v' of
             Inl e \<Rightarrow> Inl (InvalidConfiguration (error_message e))
           | Inr ct \<Rightarrow> Inr ct))"

text \<open>
  Construction, as the base class of the model runs it: \<^verbatim>\<open>cache_type\<close> is checked
  when it was given (a default is taken as it is), then, the fields being set, the model
  validator declared with \<^verbatim>\<open>mode='after'\<close> runs. The first failure ends
  construction.
\<close>

definition Construct :: "Parameters \<Rightarrow> construct_error + CacheConfig" where
  "Construct p =
     (case (case arg_cache_type p of None \<Rightarrow> Inr ''SimpleCache''
                                    | Some v \<Rightarrow> check_cache_type v) of
        Inl e \<Rightarrow> Inl e
      | Inr ct \<Rightarrow>
          (case validate_connection_attributes ((with_defaults p)\<lparr>cache_type := ct\<rparr>) of
             Inl e \<Rightarrow> Inl (InvalidConfiguration (error_message e))
           | Inr values \<Rightarrow> Inr values))"

subsection \<open>The cache contract\<close>

text \<open>
  \<^verbatim>\<open>base.py\<close> declares the four operations of \<^verbatim>\<open>BaseCache\<close> as abstract
  methods: \<^verbatim>\<open>get_with_ttl(key) -> Tuple[int, Optional[bytes]]\<close>, \<^verbatim>\<open>get\<close>,
  \<^verbatim>\<open>set(key, value, expire=None)\<close> and \<^verbatim>\<open>clear\<close>. The class cannot be
  instantiated, and a backend overrides each of them.
\<close>

type_synonym bytes = "8 word list"

text \<open>
  Modelled from the spec: the stored entries of a backend. The backends of the
  repository that implement \<^verbatim>\<open>BaseCache\<close> are not among the sources. By sections 3
  and 4.2 of the spec an entry has a byte payload and a time to live in whole seconds,
  and sliding expiration resets it to the duration the entry was stored with; so an
  entry keeps the second at which it expires, that duration and the payload. Stored keys
  are scoped by \<^verbatim>\<open>app_space\<close>.
\<close>

record CacheEntry =
  expires_at :: int
  duration :: int
  payload :: bytes

type_synonym cache_store = "string \<times> string \<rightharpoonup> CacheEntry"

text \<open>
  Modelled from the spec: when an entry has expired. The clock is read in whole seconds;
  an entry whose remaining time is zero or less has expired.
\<close>

definition expired :: "int \<Rightarrow> CacheEntry \<Rightarrow> bool" where
  "expired now e = (expires_at e \<le> now)"

text \<open>
  Modelled from the spec: \<^verbatim>\<open>Set(key, payload, expire)\<close> of section 4.2, the
  operation behind \<^verbatim>\<open>BaseCache.set\<close>. It overwrites the entry of the key; when
  \<^verbatim>\<open>expire\<close> is left out, \<^verbatim>\<open>default_timeout\<close> of the governing configuration
  is the duration.
\<close>

definition cache_set ::
  "CacheConfig \<Rightarrow> int \<Rightarrow> string \<Rightarrow> bytes \<Rightarrow> int option \<Rightarrow> cache_store \<Rightarrow> cache_store" where
  "cache_set cfg now key v expire st =
     (let d = or_default expire (default_timeout cfg)
      in st((app_space cfg, key) \<mapsto> \<lparr>expires_at = now + d, duration = d, payload = v\<rparr>))"

text \<open>
  Modelled from the spec: \<^verbatim>\<open>GetWithTTL(key)\<close> of section 4.2, the operation behind
  \<^verbatim>\<open>BaseCache.get_with_ttl\<close>: a key that does not exist or has expired gives
  \<open>(0, None)\<close>; a live entry gives its remaining seconds and its payload; with
  \<^verbatim>\<open>sliding_expiration\<close> a live entry is first reset to its full duration, which is
  then the time returned. The result is the returned pair and the store after the call.
  The spec gives this operation no failure of its own, so the result has no error case.
\<close>

definition get_with_ttl ::
  "CacheConfig \<Rightarrow> int \<Rightarrow> string \<Rightarrow> cache_store \<Rightarrow> (int \<times> bytes option) \<times> cache_store" where
  "get_with_ttl cfg now key st =
     (case st (app_space cfg, key) of
        None \<Rightarrow> ((0, None), st)
      | Some e \<Rightarrow>
          if expired now e then ((0, None), st)
          else if sliding_expiration cfg
          then ((duration e, Some (payload e)),
                st((app_space cfg, key) \<mapsto> e\<lparr>expires_at := now + duration e\<rparr>))
          else ((expires_at e - now, Some (payload e)), st))"

section \<open>Properties of the configuration model\<close>

lemma validate_cache_type_supported:
  "v \<in> set SUPPORTED_CACHE_TYPES \<Longrightarrow> validate_cache_type v = Inr v"
  by (simp add: validate_cache_type_def)

lemma check_cache_type_supported:
  "v \<in> set SUPPORTED_CACHE_TYPES \<Longrightarrow> check_cache_type v = Inr v"
  by (simp add: check_cache_type_def literal_check_def validate_cache_type_supported)

lemma check_cache_type_unsupported:
  "v \<notin> set SUPPORTED_CACHE_TYPES \<Longrightarrow>
   check_cache_type v =
     Inl (InvalidConfiguration (''Input should be '' @ literal_expected SUPPORTED_CACHE_TYPES))"
  by (simp add: check_cache_type_def literal_check_def)

text \<open>
  During construction the field validator only sees values that passed the check of
  the annotation, so it returns them: whatever \<^verbatim>\<open>check_cache_type\<close> accepts is a
  supported value, unchanged.
\<close>

lemma check_cache_type_Inr:
  "check_cache_type v = Inr ct \<Longrightarrow> ct = v \<and> v \<in> set SUPPORTED_CACHE_TYPES"
  by (cases "v \<in> set SUPPORTED_CACHE_TYPES")
     (simp_all add: check_cache_type_supported check_cache_type_unsupported)

lemma cache_type_with_defaults:
  "cache_type (with_defaults p) = or_default (arg_cache_type p) ''SimpleCache''"
  by (simp add: with_defaults_def)

text \<open>
  Once the field validator has passed, construction is the model validator applied to
  the arguments completed with the defaults.
\<close>

lemma Construct_supported:
  assumes "or_default (arg_cache_type p) ''SimpleCache'' \<in> set SUPPORTED_CACHE_TYPES"
  shows "Construct p =
    (case validate_connection_attributes (with_defaults p) of
       Inl e \<Rightarrow> Inl (InvalidConfiguration (error_message e))
     | Inr values \<Rightarrow> Inr values)"
proof (cases "arg_cache_type p")
  case None
  then have "(with_defaults p)\<lparr>cache_type := ''SimpleCache''\<rparr> = with_defaults p"
    by (simp add: with_defaults_def or_default_def)
  with None show ?thesis
    by (simp add: Construct_def)
next
  case (Some v)
  with assms have v: "check_cache_type v = Inr v"
    by (simp add: check_cache_type_supported or_default_def)
  from Some have "(with_defaults p)\<lparr>cache_type := v\<rparr> = with_defaults p"
    by (simp add: with_defaults_def or_default_def)
  with Some v show ?thesis
    by (simp add: Construct_def)
qed

text \<open>The message of the field validator, as the f-string of line 42 prints it.\<close>

lemma cache_type_message:
  "''cache_type must be one of '' @ repr_Literal SUPPORTED_CACHE_TYPES =
   ''cache_type must be one of typing.Literal['SimpleCache', 'RedisCache', 'MongoCache', 'MemCache']''"
  by (simp add: repr_Literal_def SUPPORTED_CACHE_TYPES_def repr_str_def)

text \<open>The message of the check of the annotation.\<close>

lemma literal_message:
  "''Input should be '' @ literal_expected SUPPORTED_CACHE_TYPES =
   ''Input should be 'SimpleCache', 'RedisCache', 'MongoCache' or 'MemCache'' @ [CHR 0x27]"
  by (simp add: SUPPORTED_CACHE_TYPES_def repr_str_def)

lemma literal_message_lists:
  assumes "m = ''Input should be '' @ literal_expected SUPPORTED_CACHE_TYPES"
  shows "sublist ''SimpleCache'' m" and "sublist ''RedisCache'' m"
    and "sublist ''MongoCache'' m" and "sublist ''MemCache'' m"
  unfolding assms literal_message by code_simp+

lemma cache_type_message_lists:
  assumes "m = ''cache_type must be one of '' @ repr_Literal SUPPORTED_CACHE_TYPES"
  shows "sublist ''SimpleCache'' m" and "sublist ''RedisCache'' m"
    and "sublist ''MongoCache'' m" and "sublist ''MemCache'' m"
  unfolding assms cache_type_message by code_simp+

lemma redis_message_names:
  assumes "m = ''With RedisCache, either redis_url must be provided or (redis_host, '' @
               ''redis_password) must be provided.''"
  shows "sublist ''redis_url'' m" and "sublist ''redis_host'' m"
    and "sublist ''redis_password'' m"
  unfolding assms by code_simp+

text \<open>The truth value of a field of the completed arguments, read on the argument.\<close>

lemma truthy_redis_url:
  "truthy_str (redis_url (with_defaults p)) = truthy_opt (arg_redis_url p)"
  by (cases "arg_redis_url p") (simp_all add: with_defaults_def or_default_def truthy_str_def)

lemma truthy_mongo_url:
  "truthy_str (mongo_url (with_defaults p)) = truthy_opt (arg_mongo_url p)"
  by (cases "arg_mongo_url p") (simp_all add: with_defaults_def or_default_def truthy_str_def)

lemma truthy_memcache_host:
  "truthy_str (memcache_host (with_defaults p)) = truthy_opt (arg_memcache_host p)"
  by (cases "arg_memcache_host p") (simp_all add: with_defaults_def or_default_def truthy_str_def)

lemma redis_host_password_with_defaults:
  "redis_host (with_defaults p) = arg_redis_host p"
  "redis_password (with_defaults p) = arg_redis_password p"
  by (simp_all add: with_defaults_def)

text \<open>The model validator never alters the configuration it accepts.\<close>

lemma validate_connection_attributes_same:
  "validate_connection_attributes values = Inr c \<Longrightarrow> c = values"
  by (auto simp: validate_connection_attributes_def split: if_splits)

lemma Construct_result:
  assumes "Construct p = Inr c"
  shows "c = with_defaults p"
proof (cases "arg_cache_type p")
  case None
  then have "(with_defaults p)\<lparr>cache_type := ''SimpleCache''\<rparr> = with_defaults p"
    by (simp add: with_defaults_def or_default_def)
  with None assms show ?thesis
    by (auto simp: Construct_def split: sum.splits dest: validate_connection_attributes_same)
next
  case (Some v)
  then have same: "(with_defaults p)\<lparr>cache_type := v\<rparr> = with_defaults p"
    by (simp add: with_defaults_def or_default_def)
  from Some assms have "check_cache_type v = Inr v"
    by (auto simp: Construct_def split: sum.splits dest: check_cache_type_Inr)
  with Some assms same show ?thesis
    by (auto simp: Construct_def split: sum.splits dest: validate_connection_attributes_same)
qed

text \<open>Construction for each of the four supported values of \<^verbatim>\<open>cache_type\<close>.\<close>

lemma Construct_RedisCache:
  assumes "arg_cache_type p = Some ''RedisCache''"
  shows "Construct p =
    (if \<not> truthy_opt (arg_redis_url p)
        \<and> \<not> (truthy_opt (arg_redis_host p) \<and> truthy_opt (arg_redis_password p))
     then Inl (InvalidConfiguration
       (''With RedisCache, either redis_url must be provided or (redis_host, '' @
        ''redis_password) must be provided.''))
     else Inr (with_defaults p))"
proof -
  from assms have "or_default (arg_cache_type p) ''SimpleCache'' \<in> set SUPPORTED_CACHE_TYPES"
    by (simp add: or_default_def SUPPORTED_CACHE_TYPES_def)
  moreover from assms have "cache_type (with_defaults p) = ''RedisCache''"
    by (simp add: cache_type_with_defaults or_default_def)
  ultimately show ?thesis
    by (simp add: Construct_supported validate_connection_attributes_def truthy_redis_url
        redis_host_password_with_defaults)
qed

lemma Construct_MongoCache:
  assumes "arg_cache_type p = Some ''MongoCache''"
  shows "Construct p =
    (if \<not> truthy_opt (arg_mongo_url p)
     then Inl (InvalidConfiguration ''With MongoCache, either mongo_url must be provided.'')
     else Inr (with_defaults p))"
proof -
  from assms have "or_default (arg_cache_type p) ''SimpleCache'' \<in> set SUPPORTED_CACHE_TYPES"
    by (simp add: or_default_def SUPPORTED_CACHE_TYPES_def)
  moreover from assms have "cache_type (with_defaults p) = ''MongoCache''"
    by (simp add: cache_type_with_defaults or_default_def)
  ultimately show ?thesis
    by (simp add: Construct_supported validate_connection_attributes_def truthy_mongo_url)
qed

lemma Construct_MemCache:
  assumes "arg_cache_type p = Some ''MemCache''"
  shows "Construct p =
    (if \<not> truthy_opt (arg_memcache_host p)
     then Inl (InvalidConfiguration ''With Memcache, memcache_host must be provided.'')
     else Inr (with_defaults p))"
proof -
  from assms have "or_default (arg_cache_type p) ''SimpleCache'' \<in> set SUPPORTED_CACHE_TYPES"
    by (simp add: or_default_def SUPPORTED_CACHE_TYPES_def)
  moreover from assms have "cache_type (with_defaults p) = ''MemCache''"
    by (simp add: cache_type_with_defaults or_default_def)
  ultimately show ?thesis
    by (simp add: Construct_supported validate_connection_attributes_def truthy_memcache_host)
qed

lemma Construct_SimpleCache:
  assumes "or_default (arg_cache_type p) ''SimpleCache'' = ''SimpleCache''"
  shows "Construct p = Inr (with_defaults p)"
proof -
  from assms have "or_default (arg_cache_type p) ''SimpleCache'' \<in> set SUPPORTED_CACHE_TYPES"
    by (simp add: SUPPORTED_CACHE_TYPES_def)
  moreover from assms have "cache_type (with_defaults p) = ''SimpleCache''"
    by (simp add: cache_type_with_defaults)
  ultimately show ?thesis
    by (simp add: Construct_supported validate_connection_attributes_def)
qed

lemma Construct_unsupported:
  assumes "arg_cache_type p = Some v" and "v \<notin> set SUPPORTED_CACHE_TYPES"
  shows "Construct p = Inl (InvalidConfiguration
    (''Input should be '' @ literal_expected SUPPORTED_CACHE_TYPES))"
  using assms by (simp add: Construct_def check_cache_type_unsupported)

text \<open>The call \<^verbatim>\<open>CacheConfig(cache_type="bogus")\<close> and its message.\<close>

lemma Construct_bogus:
  "Construct (no_parameters\<lparr>arg_cache_type := Some ''bogus''\<rparr>) =
   Inl (InvalidConfiguration
     (''Input should be 'SimpleCache', 'RedisCache', 'MongoCache' or 'MemCache'' @ [CHR 0x27]))"
proof -
  have "arg_cache_type (no_parameters\<lparr>arg_cache_type := Some ''bogus''\<rparr>) = Some ''bogus''"
    by simp
  moreover have "''bogus'' \<notin> set SUPPORTED_CACHE_TYPES"
    by (simp add: SUPPORTED_CACHE_TYPES_def)
  ultimately have "Construct (no_parameters\<lparr>arg_cache_type := Some ''bogus''\<rparr>) =
      Inl (InvalidConfiguration (''Input should be '' @ literal_expected SUPPORTED_CACHE_TYPES))"
    by (rule Construct_unsupported)
  then show ?thesis
    by (simp only: literal_message)
qed

text \<open>
  Whether construction succeeds does not depend on \<^verbatim>\<open>default_timeout\<close>: neither
  validator reads it.
\<close>

lemma validate_connection_attributes_default_timeout:
  "validate_connection_attributes (values\<lparr>default_timeout := t\<rparr>) =
   map_sum id (\<lambda>c. c\<lparr>default_timeout := t\<rparr>) (validate_connection_attributes values)"
  by (simp add: validate_connection_attributes_def)

lemma with_defaults_default_timeout:
  "with_defaults (p\<lparr>arg_default_timeout := t\<rparr>) =
   (with_defaults p)\<lparr>default_timeout := or_default t 300\<rparr>"
  by (simp add: with_defaults_def)

lemma Construct_default_timeout:
  "Construct (p\<lparr>arg_default_timeout := t\<rparr>) =
   map_sum id (\<lambda>c. c\<lparr>default_timeout := or_default t 300\<rparr>) (Construct p)"
proof -
  have swap: "(with_defaults p)\<lparr>default_timeout := d, cache_type := ct\<rparr> =
      (with_defaults p)\<lparr>cache_type := ct, default_timeout := d\<rparr>" for d ct
    by simp
  show ?thesis
    by (simp add: Construct_def with_defaults_default_timeout swap
        validate_connection_attributes_default_timeout split: option.splits sum.splits)
qed

lemma with_defaults_no_parameters:
  "with_defaults no_parameters = \<lparr>
     cache_type = ''SimpleCache'', default_timeout = 300, app_space = ''fastapi-cacher'',
     coder = JsonCoder, sliding_expiration = False, simple_cache_threshold = 100,
     redis_url = [], redis_host = None, redis_port = 6379, redis_password = None,
     redis_db = 0, mongo_url = [], mongo_database = ''fastapi-cacher'',
     mongo_collection = ''cache'', mongo_direct_connection = False,
     memcache_host = [], memcache_port = 11211, memcache_threshold = 100 \<rparr>"
  by (simp add: with_defaults_def no_parameters_def or_default_def)

text \<open>
  C10: the call without any argument succeeds, and the configuration it returns has
  \<^verbatim>\<open>cache_type = "SimpleCache"\<close>, \<^verbatim>\<open>default_timeout = 300\<close>,
  \<^verbatim>\<open>app_space = "fastapi-cacher"\<close>, the JSON coder and no sliding expiration.
\<close>

theorem Construct_no_parameters:
  "\<exists>c. Construct no_parameters = Inr c
     \<and> cache_type c = ''SimpleCache''
     \<and> default_timeout c = 300
     \<and> app_space c = ''fastapi-cacher''
     \<and> coder c = JsonCoder
     \<and> sliding_expiration c = False"
proof -
  have "arg_cache_type no_parameters = None"
    by (simp add: no_parameters_def)
  then show ?thesis
    by (simp add: Construct_def with_defaults_no_parameters validate_connection_attributes_def)
qed

text \<open>
  C6: the duration constants in seconds: one hour is 3600, one day is 24 hours (86400),
  one week is 7 days (604800), one month is 30 days (2592000), one year is 365 days
  (31536000). They are constants of the class, the same whatever configuration is built.
\<close>

theorem duration_constants:
  "ONE_HOUR = 3600
   \<and> ONE_DAY = 24 * ONE_HOUR \<and> ONE_DAY = 86400
   \<and> ONE_WEEK = 7 * ONE_DAY \<and> ONE_WEEK = 604800
   \<and> ONE_MONTH = 30 * ONE_DAY \<and> ONE_MONTH = 2592000
   \<and> ONE_YEAR = 365 * ONE_DAY \<and> ONE_YEAR = 31536000"
  by (simp add: ONE_HOUR_def ONE_DAY_def ONE_WEEK_def ONE_MONTH_def ONE_YEAR_def)

text \<open>
  C1: with \<^verbatim>\<open>cache_type = "RedisCache"\<close> construction succeeds exactly when
  \<^verbatim>\<open>redis_url\<close> is given and not empty, or \<^verbatim>\<open>redis_host\<close> and
  \<^verbatim>\<open>redis_password\<close> are both given and not empty. When neither holds it fails with
  \<^verbatim>\<open>InvalidConfiguration\<close>, and the message names \<^verbatim>\<open>redis_url\<close>,
  \<^verbatim>\<open>redis_host\<close> and \<^verbatim>\<open>redis_password\<close>. In particular a non-empty URL alone,
  without host and password, is accepted.
\<close>

theorem redis_connection_requirements:
  assumes "arg_cache_type p = Some ''RedisCache''"
  shows "((\<exists>c. Construct p = Inr c) \<longleftrightarrow>
            truthy_opt (arg_redis_url p)
            \<or> (truthy_opt (arg_redis_host p) \<and> truthy_opt (arg_redis_password p)))
     \<and> (\<not> (truthy_opt (arg_redis_url p)
            \<or> (truthy_opt (arg_redis_host p) \<and> truthy_opt (arg_redis_password p))) \<longrightarrow>
          (\<exists>m. Construct p = Inl (InvalidConfiguration m)
             \<and> sublist ''redis_url'' m \<and> sublist ''redis_host'' m
             \<and> sublist ''redis_password'' m))
     \<and> (truthy_opt (arg_redis_url p) \<and> arg_redis_host p = None
          \<and> arg_redis_password p = None \<longrightarrow> (\<exists>c. Construct p = Inr c))"
  by (simp add: Construct_RedisCache [OF assms] redis_message_names)

theorem redis_connection_requirements_witness:
  "arg_cache_type (no_parameters\<lparr>arg_cache_type := Some ''RedisCache'',
       arg_redis_url := Some ''redis://localhost:6379''\<rparr>) = Some ''RedisCache''
   \<and> (\<exists>c. Construct (no_parameters\<lparr>arg_cache_type := Some ''RedisCache'',
       arg_redis_url := Some ''redis://localhost:6379''\<rparr>) = Inr c)
   \<and> arg_cache_type (no_parameters\<lparr>arg_cache_type := Some ''RedisCache''\<rparr>)
       = Some ''RedisCache''
   \<and> (\<exists>m. Construct (no_parameters\<lparr>arg_cache_type := Some ''RedisCache''\<rparr>)
          = Inl (InvalidConfiguration m) \<and> sublist ''redis_url'' m)"
  using
    redis_connection_requirements [of "no_parameters\<lparr>arg_cache_type := Some ''RedisCache'',
       arg_redis_url := Some ''redis://localhost:6379''\<rparr>"]
    redis_connection_requirements [of "no_parameters\<lparr>arg_cache_type := Some ''RedisCache''\<rparr>"]
  by (auto simp: no_parameters_def truthy_str_def)

text \<open>
  C2: with \<^verbatim>\<open>cache_type = "MongoCache"\<close> construction fails with
  \<^verbatim>\<open>InvalidConfiguration\<close> exactly when \<^verbatim>\<open>mongo_url\<close> is empty (left out, or given
  as the empty string); with \<^verbatim>\<open>cache_type = "MemCache"\<close> it fails exactly when
  \<^verbatim>\<open>memcache_host\<close> is empty.
\<close>

theorem mongo_memcache_requirements:
  "(arg_cache_type p = Some ''MongoCache'' \<longrightarrow>
      ((\<exists>m. Construct p = Inl (InvalidConfiguration m)) \<longleftrightarrow> \<not> truthy_opt (arg_mongo_url p)))
   \<and> (arg_cache_type p = Some ''MemCache'' \<longrightarrow>
      ((\<exists>m. Construct p = Inl (InvalidConfiguration m)) \<longleftrightarrow> \<not> truthy_opt (arg_memcache_host p)))"
  by (simp add: Construct_MongoCache Construct_MemCache)

theorem mongo_memcache_requirements_witness:
  "arg_cache_type (no_parameters\<lparr>arg_cache_type := Some ''MongoCache''\<rparr>) = Some ''MongoCache''
   \<and> (\<exists>m. Construct (no_parameters\<lparr>arg_cache_type := Some ''MongoCache''\<rparr>)
          = Inl (InvalidConfiguration m))
   \<and> arg_cache_type (no_parameters\<lparr>arg_cache_type := Some ''MemCache'',
        arg_memcache_host := Some ''localhost''\<rparr>) = Some ''MemCache''
   \<and> \<not> (\<exists>m. Construct (no_parameters\<lparr>arg_cache_type := Some ''MemCache'',
        arg_memcache_host := Some ''localhost''\<rparr>) = Inl (InvalidConfiguration m))"
  using
    mongo_memcache_requirements [of "no_parameters\<lparr>arg_cache_type := Some ''MongoCache''\<rparr>"]
    mongo_memcache_requirements [of "no_parameters\<lparr>arg_cache_type := Some ''MemCache'',
        arg_memcache_host := Some ''localhost''\<rparr>"]
  by (simp add: no_parameters_def truthy_str_def)

text \<open>
  C3: a \<^verbatim>\<open>cache_type\<close> that is none of \<^verbatim>\<open>SimpleCache\<close>, \<^verbatim>\<open>RedisCache\<close>,
  \<^verbatim>\<open>MongoCache\<close> and \<^verbatim>\<open>MemCache\<close> makes construction fail with
  \<^verbatim>\<open>InvalidConfiguration\<close>, and each of the four supported values occurs in the message
  of that failure. The field validator of lines 38 to 43, applied to such a value, raises
  as well, and its message too contains the four values.
\<close>

theorem unsupported_cache_type_rejected:
  assumes "arg_cache_type p = Some v"
    and "v \<notin> {''SimpleCache'', ''RedisCache'', ''MongoCache'', ''MemCache''}"
  shows "(\<exists>m. Construct p = Inl (InvalidConfiguration m)
           \<and> sublist ''SimpleCache'' m \<and> sublist ''RedisCache'' m
           \<and> sublist ''MongoCache'' m \<and> sublist ''MemCache'' m)
     \<and> (\<exists>m. validate_cache_type v = Inl (ValueError m)
           \<and> sublist ''SimpleCache'' m \<and> sublist ''RedisCache'' m
           \<and> sublist ''MongoCache'' m \<and> sublist ''MemCache'' m)"
proof -
  from assms(2) have v: "v \<notin> set SUPPORTED_CACHE_TYPES"
    by (simp add: SUPPORTED_CACHE_TYPES_def)
  with assms(1) have "\<exists>m. Construct p = Inl (InvalidConfiguration m)
           \<and> sublist ''SimpleCache'' m \<and> sublist ''RedisCache'' m
           \<and> sublist ''MongoCache'' m \<and> sublist ''MemCache'' m"
    by (simp add: Construct_unsupported literal_message_lists)
  moreover from v have "\<exists>m. validate_cache_type v = Inl (ValueError m)
           \<and> sublist ''SimpleCache'' m \<and> sublist ''RedisCache'' m
           \<and> sublist ''MongoCache'' m \<and> sublist ''MemCache'' m"
    by (simp add: validate_cache_type_def cache_type_message_lists)
  ultimately show ?thesis
    by (rule conjI)
qed

theorem unsupported_cache_type_rejected_witness:
  "arg_cache_type (no_parameters\<lparr>arg_cache_type := Some ''bogus''\<rparr>) = Some ''bogus''
   \<and> ''bogus'' \<notin> {''SimpleCache'', ''RedisCache'', ''MongoCache'', ''MemCache''}
   \<and> (\<exists>m. Construct (no_parameters\<lparr>arg_cache_type := Some ''bogus''\<rparr>)
          = Inl (InvalidConfiguration m)
        \<and> sublist ''SimpleCache'' m \<and> sublist ''RedisCache'' m
        \<and> sublist ''MongoCache'' m \<and> sublist ''MemCache'' m)"
  using unsupported_cache_type_rejected
    [of "no_parameters\<lparr>arg_cache_type := Some ''bogus''\<rparr>" "''bogus''"]
  by simp

text \<open>
  C4: with \<^verbatim>\<open>cache_type = "SimpleCache"\<close>, given or by default, construction succeeds
  whatever the connection arguments are, also when all of them are left out; the result
  is the arguments completed with the defaults.
\<close>

theorem simple_cache_needs_nothing:
  assumes "arg_cache_type p = Some ''SimpleCache'' \<or> arg_cache_type p = None"
  shows "Construct p = Inr (with_defaults p)"
  using assms by (auto simp: or_default_def intro: Construct_SimpleCache)

theorem simple_cache_needs_nothing_witness:
  "(arg_cache_type (no_parameters\<lparr>arg_cache_type := Some ''SimpleCache''\<rparr>)
      = Some ''SimpleCache''
    \<or> arg_cache_type (no_parameters\<lparr>arg_cache_type := Some ''SimpleCache''\<rparr>) = None)
   \<and> Construct (no_parameters\<lparr>arg_cache_type := Some ''SimpleCache''\<rparr>)
      = Inr (with_defaults (no_parameters\<lparr>arg_cache_type := Some ''SimpleCache''\<rparr>))
   \<and> redis_url (with_defaults (no_parameters\<lparr>arg_cache_type := Some ''SimpleCache''\<rparr>)) = []
   \<and> mongo_url (with_defaults (no_parameters\<lparr>arg_cache_type := Some ''SimpleCache''\<rparr>)) = []
   \<and> memcache_host (with_defaults (no_parameters\<lparr>arg_cache_type := Some ''SimpleCache''\<rparr>)) = []"
  using simple_cache_needs_nothing [of "no_parameters\<lparr>arg_cache_type := Some ''SimpleCache''\<rparr>"]
  by (simp add: with_defaults_def no_parameters_def or_default_def)

text \<open>
  C5, in the form the code supports: construction does not check \<^verbatim>\<open>default_timeout\<close>. A configuration
  that is returned has the integer that was given, unchanged, or 300 when none was given;
  and whether construction succeeds does not depend on that argument.
\<close>

theorem default_timeout_as_given:
  "(Construct p = Inr c \<longrightarrow>
      default_timeout c = (case arg_default_timeout p of None \<Rightarrow> 300 | Some t \<Rightarrow> t))
   \<and> ((\<exists>c'. Construct (p\<lparr>arg_default_timeout := t\<rparr>) = Inr c') \<longleftrightarrow> (\<exists>c'. Construct p = Inr c'))"
proof -
  have "default_timeout c = (case arg_default_timeout p of None \<Rightarrow> 300 | Some t \<Rightarrow> t)"
    if "Construct p = Inr c"
    using Construct_result [OF that] by (simp add: with_defaults_def or_default_def)
  moreover have "(\<exists>c'. Construct (p\<lparr>arg_default_timeout := t\<rparr>) = Inr c') \<longleftrightarrow>
      (\<exists>c'. Construct p = Inr c')"
    by (cases "Construct p") (simp_all add: Construct_default_timeout)
  ultimately show ?thesis
    by blast
qed

theorem default_timeout_as_given_witness:
  "Construct (no_parameters\<lparr>arg_default_timeout := Some (- 5)\<rparr>)
     = Inr (with_defaults (no_parameters\<lparr>arg_default_timeout := Some (- 5)\<rparr>))
   \<and> default_timeout (with_defaults (no_parameters\<lparr>arg_default_timeout := Some (- 5)\<rparr>)) = - 5"
proof -
  have ok: "Construct (no_parameters\<lparr>arg_default_timeout := Some (- 5)\<rparr>)
      = Inr (with_defaults (no_parameters\<lparr>arg_default_timeout := Some (- 5)\<rparr>))"
    by (rule Construct_SimpleCache) (simp add: no_parameters_def or_default_def)
  with default_timeout_as_given
    [of "no_parameters\<lparr>arg_default_timeout := Some (- 5)\<rparr>"
        "with_defaults (no_parameters\<lparr>arg_default_timeout := Some (- 5)\<rparr>)"]
  show ?thesis
    by simp
qed

text \<open>
  C5 as it is stated fails: \<^verbatim>\<open>CacheConfig(default_timeout=0)\<close> is accepted, and the
  configuration returned has \<^verbatim>\<open>default_timeout = 0\<close>, which is not positive.
\<close>

theorem default_timeout_positive_counterexample:
  "Construct (no_parameters\<lparr>arg_default_timeout := Some 0\<rparr>)
     = Inr (with_defaults (no_parameters\<lparr>arg_default_timeout := Some 0\<rparr>))
   \<and> \<not> 0 < default_timeout (with_defaults (no_parameters\<lparr>arg_default_timeout := Some 0\<rparr>))"
proof -
  have "Construct (no_parameters\<lparr>arg_default_timeout := Some 0\<rparr>)
      = Inr (with_defaults (no_parameters\<lparr>arg_default_timeout := Some 0\<rparr>))"
    by (rule Construct_SimpleCache) (simp add: no_parameters_def or_default_def)
  then show ?thesis
    by (simp add: with_defaults_def or_default_def)
qed

section \<open>Properties of the cache contract\<close>

text \<open>
  C9: for a key that does not exist or whose entry has expired, \<^verbatim>\<open>GetWithTTL\<close>
  returns the pair \<open>(0, None)\<close>; the miss is an ordinary return value.
\<close>

theorem miss_returns_zero_and_absent:
  assumes "st (app_space cfg, key) = None
           \<or> (\<exists>e. st (app_space cfg, key) = Some e \<and> expired now e)"
  shows "fst (get_with_ttl cfg now key st) = (0, None)"
  using assms by (auto simp: get_with_ttl_def)

theorem miss_returns_zero_and_absent_witness:
  "(cache_set (with_defaults no_parameters) 0 ''k'' [1, 2] (Some 1) Map.empty
        (app_space (with_defaults no_parameters), ''k'') = None
    \<or> (\<exists>e. cache_set (with_defaults no_parameters) 0 ''k'' [1, 2] (Some 1) Map.empty
        (app_space (with_defaults no_parameters), ''k'') = Some e \<and> expired 2 e))
   \<and> fst (get_with_ttl (with_defaults no_parameters) 2 ''k''
        (cache_set (with_defaults no_parameters) 0 ''k'' [1, 2] (Some 1) Map.empty)) = (0, None)"
proof -
  have h: "cache_set (with_defaults no_parameters) 0 ''k'' [1, 2] (Some 1) Map.empty
        (app_space (with_defaults no_parameters), ''k'') = None
    \<or> (\<exists>e. cache_set (with_defaults no_parameters) 0 ''k'' [1, 2] (Some 1) Map.empty
        (app_space (with_defaults no_parameters), ''k'') = Some e \<and> expired 2 e)"
    by (simp add: cache_set_def or_default_def expired_def)
  from h miss_returns_zero_and_absent
    [where st = "cache_set (with_defaults no_parameters) 0 ''k'' [1, 2] (Some 1) Map.empty"
       and cfg = "with_defaults no_parameters" and key = "''k''" and now = 2, OF h]
  show ?thesis
    by (intro conjI)
qed

end
